theory Spec2Isabelle
  imports Main "HOL-Library.Char_ord" "HOL-Library.List_Lexorder"
begin

section \<open>The rendered tree\<close>

text \<open>
  The components of the blog are functions from their inputs to a React element tree.
  The tree is modelled as the value the component returns, before React expands the
  components it mentions: a host element (\<open>div\<close>, \<open>ul\<close>, \<open>li\<close>) and a
  component element (\<open>Link\<close>, \<open>Tag\<close>, \<open>NewsletterForm\<close>) are both an
  \<open>Element\<close>, told apart by their tag. A JSX child that is an expression keeps the
  value the expression has: a string is a \<open>Text\<close>, the array built by \<open>.map\<close> is
  \<open>Items\<close>, and the values \<open>false\<close> and \<open>undefined\<close>, which React renders as
  nothing, are \<open>JSFalse\<close> and \<open>JSUndefined\<close>.

  Strings are char lists holding the UTF-8 bytes of the source text. The components only
  concatenate strings (template literals) and pass them on, which is the same operation
  on the bytes.
\<close>

datatype tag = Host string | Component string

datatype pval = PStr string | PNum int

datatype node =
    Text string
  | JSFalse
  | JSUndefined
  | Element tag "(string \<times> pval) list" "node list"
  | Fragment "node list"
  | Items "node list"

text \<open>Every node of a tree, in document order (a node before its children).\<close>

fun subnodes :: "node \<Rightarrow> node list" where
  "subnodes (Element t ps cs) = Element t ps cs # concat (map subnodes cs)"
| "subnodes (Fragment cs) = Fragment cs # concat (map subnodes cs)"
| "subnodes (Items cs) = Items cs # concat (map subnodes cs)"
| "subnodes n = [n]"

fun tag_of :: "node \<Rightarrow> tag option" where
  "tag_of (Element t ps cs) = Some t"
| "tag_of n = None"

fun attr :: "string \<Rightarrow> node \<Rightarrow> pval option" where
  "attr a (Element t ps cs) = map_of ps a"
| "attr a n = None"

fun children :: "node \<Rightarrow> node list" where
  "children (Element t ps cs) = cs"
| "children (Fragment cs) = cs"
| "children (Items cs) = cs"
| "children n = []"

fun text_of :: "node \<Rightarrow> string list" where
  "text_of (Text s) = [s]"
| "text_of n = []"

definition by_tag :: "tag \<Rightarrow> node \<Rightarrow> node list" where
  "by_tag t n = filter (\<lambda>m. tag_of m = Some t) (subnodes n)"

text \<open>The strings a tree shows as text, in document order.\<close>

definition texts :: "node \<Rightarrow> string list" where
  "texts n = concat (map text_of (subnodes n))"

text \<open>The summary cards of a tree are its \<open>li\<close> elements, its links the \<open>Link\<close> elements.\<close>

definition cards :: "node \<Rightarrow> node list" where
  "cards n = by_tag (Host ''li'') n"

definition links :: "node \<Rightarrow> node list" where
  "links n = by_tag (Component ''Link'') n"

text \<open>React renders \<open>false\<close>, \<open>undefined\<close> and the empty string as nothing.\<close>

fun renders_nothing :: "node \<Rightarrow> bool" where
  "renders_nothing JSFalse = True"
| "renders_nothing JSUndefined = True"
| "renders_nothing (Text s) = (s = [])"
| "renders_nothing n = False"

section \<open>Site configuration and posts\<close>

text \<open>
  \<open>siteMetadata\<close> is imported from \<open>@/data/siteMetadata\<close>; the components read its
  description, its locale, \<open>newsletter?.provider\<close> and \<open>search.provider\<close>. It is a
  parameter of every component here. \<open>None\<close> is an absent \<open>newsletter\<close> or \<open>search\<close>
  object.
\<close>

record newsletter_config =
  newsletter_provider :: string

record search_config =
  search_provider :: string

record site_metadata =
  description :: string
  site_locale :: string
  newsletter :: "newsletter_config option"
  search :: "search_config option"

text \<open>
  A post as the data model has it. \<open>Home\<close> destructures \<open>slug\<close>, \<open>date\<close>, \<open>title\<close>,
  \<open>summary\<close> and \<open>tags\<close>, and reads nothing else of a post.
\<close>

record post =
  slug :: string
  date :: string
  title :: string
  summary :: string
  tags :: "string list"
  draft :: bool
  body :: string

section \<open>The Home component\<close>

definition MAX_DISPLAY :: nat where
  "MAX_DISPLAY = 5"

text \<open>The characters of the source outside ASCII, as UTF-8: \<open>&rarr;\<close> and the clown face.\<close>

definition rarr :: string where
  "rarr = [CHR 0xE2, CHR 0x86, CHR 0x92]"

definition clown_face :: string where
  "clown_face = [CHR 0xF0, CHR 0x9F, CHR 0xA4, CHR 0xA1]"

definition dquote :: string where
  "dquote = [CHR 0x22]"

definition className :: "string \<Rightarrow> string \<times> pval" where
  "className c = (''className'', PStr c)"

text \<open>\<open><Tag key={tag} text={tag} />\<close>\<close>

definition Tag_el :: "string \<Rightarrow> node" where
  "Tag_el t = Element (Component ''Tag'') [(''key'', PStr t), (''text'', PStr t)] []"

text \<open>
  The two links of a card and the link to the listing page. \<open>formatDate\<close> is imported
  from \<open>pliny/utils/formatDate\<close> and is a parameter, a function of the date string and
  the locale: in \<open>Home\<close> it stands for the strings its calls return. What a call reads of
  the runtime and what it raises is in \<open>Home_js\<close> below.
\<close>

definition title_link :: "string \<Rightarrow> string \<Rightarrow> node" where
  "title_link slug' title' =
     Element (Component ''Link'')
       [(''href'', PStr (''/blog/'' @ slug')),
        className ''text-gray-900 dark:text-gray-100'']
       [Text title']"

definition read_more_link :: "string \<Rightarrow> string \<Rightarrow> node" where
  "read_more_link slug' title' =
     Element (Component ''Link'')
       [(''href'', PStr (''/blog/'' @ slug')),
        className ''text-primary-500 hover:text-primary-600 dark:hover:text-primary-400'',
        (''aria-label'', PStr (''Read more: '' @ dquote @ title' @ dquote))]
       [Text (''Read more '' @ rarr)]"

definition all_posts_link :: node where
  "all_posts_link =
     Element (Component ''Link'')
       [(''href'', PStr ''/blog''),
        className ''text-primary-500 hover:text-primary-600 dark:hover:text-primary-400'',
        (''aria-label'', PStr ''All posts'')]
       [Text (''All Posts '' @ rarr)]"

text \<open>
  The \<open>li\<close> the callback of \<open>.map\<close> returns, from the five destructured values
  (written with a prime, the plain names being the fields of the record).
\<close>

definition card_li ::
  "site_metadata \<Rightarrow> (string \<Rightarrow> string \<Rightarrow> string) \<Rightarrow>
   string \<Rightarrow> string \<Rightarrow> string \<Rightarrow> string \<Rightarrow> string list \<Rightarrow> node" where
  "card_li siteMetadata formatDate slug' date' title' summary' tags' =
     Element (Host ''li'') [(''key'', PStr slug'), className ''px-8 py-8 md:px-0 md:py-12'']
      [Element (Host ''article'') []
        [Element (Host ''div'')
          [className ''space-y-2 xl:grid xl:grid-cols-4 xl:items-baseline xl:space-y-0'']
          [Element (Host ''dl'') []
            [Element (Host ''dt'') [className ''sr-only''] [Text ''Published on''],
             Element (Host ''dd'')
               [className ''text-base leading-6 font-medium text-gray-500 dark:text-gray-400'']
               [Element (Host ''time'') [(''dateTime'', PStr date')]
                 [Text (formatDate date' (site_locale siteMetadata))]]],
           Element (Host ''div'') [className ''space-y-5 xl:col-span-3'']
            [Element (Host ''div'') [className ''space-y-6'']
              [Element (Host ''div'') []
                [Element (Host ''h2'')
                   [className ''text-2xl leading-8 font-bold tracking-tight'']
                   [title_link slug' title'],
                 Element (Host ''div'') [className ''mt-2 flex flex-wrap'']
                   [Items (map Tag_el tags')]],
               Element (Host ''div'')
                 [className ''prose max-w-none text-gray-500 dark:text-gray-400'']
                 [Text summary']],
             Element (Host ''div'') [className ''text-base leading-6 font-medium'']
              [read_more_link slug' title']]]]]"

definition card :: "site_metadata \<Rightarrow> (string \<Rightarrow> string \<Rightarrow> string) \<Rightarrow> post \<Rightarrow> node" where
  "card siteMetadata formatDate p =
     card_li siteMetadata formatDate (slug p) (date p) (title p) (summary p) (tags p)"

text \<open>The heading block above the list.\<close>

definition heading :: "site_metadata \<Rightarrow> node" where
  "heading siteMetadata =
     Element (Host ''div'') [className ''space-y-2 pt-6 pb-8 md:space-y-5'']
      [Element (Host ''h1'')
         [className ''text-center text-3xl leading-9 font-extrabold tracking-tight text-gray-900 sm:text-4xl sm:leading-10 md:text-left md:text-6xl md:leading-14 dark:text-gray-100'']
         [Text ''Lucas Bueno''],
       Element (Host ''p'')
         [className ''px-6 text-center text-lg leading-7 text-gray-500 md:px-0 md:text-left dark:text-gray-400'']
         [Text (description siteMetadata), Text '' '', Element (Host ''br'') [] [],
          Element (Host ''span'')
            [className ''text-sm text-gray-500 underline dark:text-gray-400'']
            [Text (''*This is my notepad '' @ clown_face @ ''*'')]]]"

text \<open>
  The fragment \<open>Home\<close> returns, from \<open>posts.length\<close> and the array that
  \<open>posts.slice(0, MAX_DISPLAY).map(...)\<close> built. \<open>!posts.length && 'No posts found.'\<close>
  is the string when the length is 0 and \<open>false\<close> otherwise;
  \<open>posts.length > MAX_DISPLAY && (...)\<close> is the element or \<open>false\<close>;
  \<open>siteMetadata.newsletter?.provider && (...)\<close> is \<open>undefined\<close> without a newsletter
  object, the empty string for an empty provider, the element otherwise.
\<close>

definition Home_fragment :: "site_metadata \<Rightarrow> nat \<Rightarrow> node list \<Rightarrow> node" where
  "Home_fragment siteMetadata posts_length items =
     Fragment
      [Element (Host ''div'') [className ''divide-y divide-gray-200 dark:divide-gray-800'']
        [heading siteMetadata,
         Element (Host ''ul'') [className ''divide-y divide-gray-200 dark:divide-gray-800'']
          [if posts_length = 0 then Text ''No posts found.'' else JSFalse,
           Items items,
           Element (Host ''div'')
             [className ''block divide-y divide-gray-200 md:hidden dark:divide-gray-800''] []]],
       if MAX_DISPLAY < posts_length
       then Element (Host ''div'')
              [className ''flex justify-center pt-6 text-base leading-6 font-medium md:justify-end md:pt-4'']
              [all_posts_link]
       else JSFalse,
       case newsletter siteMetadata of
         None \<Rightarrow> JSUndefined
       | Some n \<Rightarrow>
           if newsletter_provider n = [] then Text []
           else Element (Host ''div'')
                  [className ''flex items-center justify-center pt-8 md:pt-4'']
                  [Element (Component ''NewsletterForm'') [] []]]"

definition Home :: "site_metadata \<Rightarrow> (string \<Rightarrow> string \<Rightarrow> string) \<Rightarrow> post list \<Rightarrow> node" where
  "Home siteMetadata formatDate posts =
     Home_fragment siteMetadata (length posts)
       (map (card siteMetadata formatDate) (take MAX_DISPLAY posts))"

subsection \<open>Home as it runs\<close>

text \<open>
  \<open>Home\<close> above is the tree of a call that returns, on typed posts, with
  \<open>formatDate\<close> standing for the strings its calls return. This part models the call
  itself: what it can raise and what it does to the state of the runtime.

  \<open>Home\<close> is untyped: it takes whatever \<open>posts\<close> array the page passes. On an
  array of objects its member accesses are \<open>posts.length\<close>, \<open>posts.slice\<close>, the
  destructuring of each of the first \<open>MAX_DISPLAY\<close> entries and \<open>tags.map\<close>. Reading
  a property an object lacks gives \<open>undefined\<close> and raises nothing; calling \<open>.map\<close>
  on an \<open>undefined\<close> \<open>tags\<close> raises a \<open>TypeError\<close>. So an entry is modelled with a
  \<open>tags\<close> property that may be absent.

  \<open>formatDate\<close> is the function of pliny,
  \<open>new Date(date).toLocaleDateString(locale, {year, month, day})\<close>: it reads the time
  zone of the process, and it raises a \<open>RangeError\<close> on a locale that is not a
  well-formed language tag. It stays a parameter, now with what a call of it can do: it
  takes the date, the locale and the state of the runtime, and gives the string it returns
  or the error it raises, and the state after the call. \<open>Home\<close> assigns to nothing
  itself; it calls \<open>formatDate\<close> in the callback of \<open>.map\<close>, once for each of the
  first \<open>MAX_DISPLAY\<close> entries in their order, and in the callback before
  \<open>tags.map\<close>. A callback that raises ends \<open>.map\<close> and the call of \<open>Home\<close> at that
  entry.
\<close>

datatype error = TypeError | RangeError

record js_post =
  js_slug :: string
  js_date :: string
  js_title :: string
  js_summary :: string
  js_tags :: "string list option"

text \<open>
  The callback of \<open>.map\<close>. The \<open>li\<close> is \<open>card_li\<close> with the string the call of
  \<open>formatDate\<close> returned.
\<close>

definition card_js ::
  "site_metadata \<Rightarrow> (string \<Rightarrow> string \<Rightarrow> 's \<Rightarrow> (error + string) \<times> 's) \<Rightarrow>
   js_post \<Rightarrow> 's \<Rightarrow> (error + node) \<times> 's" where
  "card_js siteMetadata formatDate obj s =
     (case formatDate (js_date obj) (site_locale siteMetadata) s of
        (Inl e, s') \<Rightarrow> (Inl e, s')
      | (Inr shown, s') \<Rightarrow>
          (case js_tags obj of
             None \<Rightarrow> (Inl TypeError, s')
           | Some tags' \<Rightarrow>
               (Inr (card_li siteMetadata (\<lambda>d l. shown)
                       (js_slug obj) (js_date obj) (js_title obj) (js_summary obj) tags'),
                s')))"

fun map_js :: "('a \<Rightarrow> 's \<Rightarrow> (error + 'b) \<times> 's) \<Rightarrow> 'a list \<Rightarrow> 's \<Rightarrow> (error + 'b list) \<times> 's" where
  "map_js f [] s = (Inr [], s)"
| "map_js f (x # xs) s =
     (case f x s of
        (Inl e, s') \<Rightarrow> (Inl e, s')
      | (Inr y, s') \<Rightarrow>
          (case map_js f xs s' of
             (Inl e, s'') \<Rightarrow> (Inl e, s'')
           | (Inr ys, s'') \<Rightarrow> (Inr (y # ys), s'')))"

definition Home_js ::
  "site_metadata \<Rightarrow> (string \<Rightarrow> string \<Rightarrow> 's \<Rightarrow> (error + string) \<times> 's) \<Rightarrow>
   js_post list \<Rightarrow> 's \<Rightarrow> (error + node) \<times> 's" where
  "Home_js siteMetadata formatDate posts s =
     (case map_js (card_js siteMetadata formatDate) (take MAX_DISPLAY posts) s of
        (Inl e, s') \<Rightarrow> (Inl e, s')
      | (Inr items, s') \<Rightarrow> (Inr (Home_fragment siteMetadata (length posts) items), s'))"

text \<open>The object of a well-formed post: all five fields are there.\<close>

definition js_of :: "post \<Rightarrow> js_post" where
  "js_of p =
     \<lparr>js_slug = slug p, js_date = date p, js_title = title p, js_summary = summary p,
      js_tags = Some (tags p)\<rparr>"

section \<open>The SearchButton component\<close>

text \<open>
  The function returns the wrapper element inside the \<open>if\<close> and falls off its end
  otherwise, which is the value \<open>undefined\<close>.
\<close>

definition SearchButton :: "site_metadata \<Rightarrow> node" where
  "SearchButton siteMetadata =
     (case search siteMetadata of
        None \<Rightarrow> JSUndefined
      | Some s \<Rightarrow>
          if search_provider s = ''algolia'' \<or> search_provider s = ''kbar''
          then
            let SearchButtonWrapper =
                  (if search_provider s = ''algolia'' then Component ''AlgoliaButton''
                   else Component ''KBarButton'')
            in Element SearchButtonWrapper [(''aria-label'', PStr ''Search'')]
                 [Element (Component ''CiSearch'')
                    [(''size'', PNum 18),
                     className ''hover:text-primary-500 dark:hover:text-primary-400 h-8 w-8 text-gray-900 dark:text-gray-100'']
                    []]
          else JSUndefined)"

section \<open>The Listing Assembler\<close>

text \<open>
  Modelled from the spec: the Listing Assembler's ordering step. The module that builds
  the listing handed to \<open>Home\<close> is not among the sources. The spec has it sort by
  \<open>date\<close> descending with a stable sort; dates are ISO-8601 strings, compared as
  strings. A post is put before the first post that is not later than it.
\<close>

fun insert_by_date :: "post \<Rightarrow> post list \<Rightarrow> post list" where
  "insert_by_date p [] = [p]"
| "insert_by_date p (q # qs) =
     (if date q \<le> date p then p # q # qs else q # insert_by_date p qs)"

text \<open>
  Modelled from the spec: the stable sort by \<open>date\<close> descending, as insertion from the
  right end of the input.
\<close>

definition sort_by_date_desc :: "post list \<Rightarrow> post list" where
  "sort_by_date_desc posts = foldr insert_by_date posts []"

text \<open>
  Modelled from the spec: the Listing Assembler "filters out draft documents, sorts
  remaining documents by publication date (descending)".
\<close>

definition listing_assembler :: "post list \<Rightarrow> post list" where
  "listing_assembler posts = sort_by_date_desc (filter (\<lambda>p. \<not> draft p) posts)"

section \<open>Concrete inputs\<close>

text \<open>
  A site without newsletter and search, a date formatter that prints the date string as
  it is, and a sequence of seven posts.
\<close>

definition plain_site :: site_metadata where
  "plain_site = \<lparr>description = ''A blog'', site_locale = ''en-US'', newsletter = None,
                  search = None\<rparr>"

definition iso_date :: "string \<Rightarrow> string \<Rightarrow> string" where
  "iso_date d l = d"

definition seven_posts :: "post list" where
  "seven_posts =
     map (\<lambda>(s, d). \<lparr>slug = s, date = d, title = ''T'', summary = ''S'', tags = [],
                    draft = False, body = []\<rparr>)
       [(''g'', ''2025-04-28''), (''f'', ''2025-03-01''), (''e'', ''2024-12-24''),
        (''d'', ''2024-04-24''), (''c'', ''2024-04-23''), (''b'', ''2023-11-02''),
        (''a'', ''2023-01-15'')]"

text \<open>
  The post of \<open>data/blog/how-to-cleaning-up-npm-to-yarn.mdx\<close>, without its body, and
  the same post under the title \<open>No posts found.\<close>
\<close>

definition april_post :: post where
  "april_post =
     \<lparr>slug = ''how-to-cleaning-up-npm-to-yarn'', date = ''2024-04-24'',
      title = ''How to Clean Up npm and Migrate to Yarn'',
      summary = ''A step-by-step guide on how to clean up npm files and migrate a project to use Yarn exclusively, avoiding deployment conflicts.'',
      tags = [''yarn'', ''npm'', ''git'', ''deployment''], draft = False, body = []\<rparr>"

definition titled_post :: post where
  "titled_post = april_post\<lparr>title := ''No posts found.''\<rparr>"

text \<open>
  The state of the runtime that \<open>formatDate\<close> reads is the time zone of the process.
\<close>

record runtime =
  time_zone :: string

definition utc :: runtime where
  "utc = \<lparr>time_zone = ''UTC''\<rparr>"

definition london :: runtime where
  "london = \<lparr>time_zone = ''Europe/London''\<rparr>"

definition sao_paulo :: runtime where
  "sao_paulo = \<lparr>time_zone = ''America/Sao_Paulo''\<rparr>"

text \<open>
  What pliny's \<open>formatDate\<close> does at the points the examples below call it. The date
  \<open>2024-04-24\<close> is midnight UTC of that day, which is still April 24 in London and
  9 pm of April 23 in Sao Paulo; \<open>en_US\<close>, with an underscore, is not a well-formed
  language tag. At every other point the value here is a stand-in that no example
  evaluates. No call changes the state.
\<close>

definition sample_formatDate :: "string \<Rightarrow> string \<Rightarrow> runtime \<Rightarrow> (error + string) \<times> runtime" where
  "sample_formatDate d l rt =
     (if l = ''en_US'' then (Inl RangeError, rt)
      else if d = ''2024-04-24'' \<and> l = ''en-US'' \<and> time_zone rt = ''UTC''
        then (Inr ''April 24, 2024'', rt)
      else if d = ''2024-04-24'' \<and> l = ''en-US'' \<and> time_zone rt = ''Europe/London''
        then (Inr ''April 24, 2024'', rt)
      else if d = ''2024-04-24'' \<and> l = ''en-US'' \<and> time_zone rt = ''America/Sao_Paulo''
        then (Inr ''April 23, 2024'', rt)
      else (Inr d, rt))"


section \<open>Reading a tree\<close>

text \<open>\<open>by_tag\<close> and \<open>texts\<close> follow the structure of the tree.\<close>

lemma by_tag_Element:
  "by_tag t (Element t' ps cs) =
     (if t' = t then [Element t' ps cs] else []) @ concat (map (by_tag t) cs)"
  by (simp add: by_tag_def [abs_def] filter_concat comp_def)

lemma by_tag_Fragment: "by_tag t (Fragment cs) = concat (map (by_tag t) cs)"
  by (simp add: by_tag_def [abs_def] filter_concat comp_def)

lemma by_tag_Items: "by_tag t (Items cs) = concat (map (by_tag t) cs)"
  by (simp add: by_tag_def [abs_def] filter_concat comp_def)

lemma by_tag_leaf:
  "by_tag t (Text s) = []" "by_tag t JSFalse = []" "by_tag t JSUndefined = []"
  by (simp_all add: by_tag_def)

lemmas by_tag_simps = by_tag_Element by_tag_Fragment by_tag_Items by_tag_leaf

lemma concat_map_concat:
  "concat (map f (concat xss)) = concat (map (\<lambda>xs. concat (map f xs)) xss)"
  by (induction xss) simp_all

lemma texts_Element: "texts (Element t ps cs) = concat (map texts cs)"
  by (simp add: texts_def [abs_def] concat_map_concat comp_def)

lemma texts_Fragment: "texts (Fragment cs) = concat (map texts cs)"
  by (simp add: texts_def [abs_def] concat_map_concat comp_def)

lemma texts_Items: "texts (Items cs) = concat (map texts cs)"
  by (simp add: texts_def [abs_def] concat_map_concat comp_def)

lemma texts_leaf:
  "texts (Text s) = [s]" "texts JSFalse = []" "texts JSUndefined = []"
  by (simp_all add: texts_def)

lemmas texts_simps = texts_Element texts_Fragment texts_Items texts_leaf

lemma concat_map_Nil: "concat (map (\<lambda>x. []) xs) = []"
  by (induction xs) simp_all

section \<open>What one card holds\<close>

lemma by_tag_Tag_el:
  "by_tag t (Tag_el x) = (if t = Component ''Tag'' then [Tag_el x] else [])"
  by (auto simp add: Tag_el_def by_tag_simps)

lemma texts_Tag_el: "texts (Tag_el x) = []"
  by (simp add: Tag_el_def texts_simps)

lemma by_tag_li_card: "by_tag (Host ''li'') (card cfg fmt p) = [card cfg fmt p]"
  by (simp add: card_def card_li_def title_link_def read_more_link_def by_tag_simps
      by_tag_Tag_el comp_def concat_map_Nil)

lemma by_tag_ul_card: "by_tag (Host ''ul'') (card cfg fmt p) = []"
  by (simp add: card_def card_li_def title_link_def read_more_link_def by_tag_simps
      by_tag_Tag_el comp_def concat_map_Nil)

lemma by_tag_time_card:
  "by_tag (Host ''time'') (card cfg fmt p) =
     [Element (Host ''time'') [(''dateTime'', PStr (date p))]
        [Text (fmt (date p) (site_locale cfg))]]"
  by (simp add: card_def card_li_def title_link_def read_more_link_def by_tag_simps
      by_tag_Tag_el comp_def concat_map_Nil)

lemma by_tag_h2_card:
  "by_tag (Host ''h2'') (card cfg fmt p) =
     [Element (Host ''h2'') [className ''text-2xl leading-8 font-bold tracking-tight'']
        [title_link (slug p) (title p)]]"
  by (simp add: card_def card_li_def title_link_def read_more_link_def by_tag_simps
      by_tag_Tag_el comp_def concat_map_Nil)

lemma by_tag_Tag_card: "by_tag (Component ''Tag'') (card cfg fmt p) = map Tag_el (tags p)"
  by (simp add: card_def card_li_def title_link_def read_more_link_def by_tag_simps
      by_tag_Tag_el comp_def)

lemma links_card:
  "links (card cfg fmt p) = [title_link (slug p) (title p), read_more_link (slug p) (title p)]"
  by (simp add: links_def card_def card_li_def title_link_def read_more_link_def by_tag_simps
      by_tag_Tag_el comp_def concat_map_Nil)

lemma texts_card:
  "texts (card cfg fmt p) =
     [''Published on'', fmt (date p) (site_locale cfg), title p, summary p,
      ''Read more '' @ rarr]"
  by (simp add: card_def card_li_def title_link_def read_more_link_def texts_simps
      texts_Tag_el comp_def concat_map_Nil)

section \<open>What the page holds\<close>

lemma by_tag_li_heading: "by_tag (Host ''li'') (heading cfg) = []"
  by (simp add: heading_def by_tag_simps)

lemma links_heading: "links (heading cfg) = []"
  by (simp add: links_def heading_def by_tag_simps)

lemma by_tag_ul_heading: "by_tag (Host ''ul'') (heading cfg) = []"
  by (simp add: heading_def by_tag_simps)

lemma cards_Home: "cards (Home cfg fmt posts) = map (card cfg fmt) (take MAX_DISPLAY posts)"
  unfolding cards_def Home_def Home_fragment_def
  by (simp add: by_tag_simps by_tag_li_card by_tag_li_heading all_posts_link_def comp_def
      split: option.split)

lemma links_Home:
  "links (Home cfg fmt posts) =
     concat (map (\<lambda>p. [title_link (slug p) (title p), read_more_link (slug p) (title p)])
               (take MAX_DISPLAY posts))
     @ (if MAX_DISPLAY < length posts then [all_posts_link] else [])"
proof -
  have item: "by_tag (Component ''Link'') (card cfg fmt p) =
      [title_link (slug p) (title p), read_more_link (slug p) (title p)]" for p
    using links_card [of cfg fmt p] by (simp add: links_def)
  have head: "by_tag (Component ''Link'') (heading cfg) = []"
    using links_heading [of cfg] by (simp add: links_def)
  have this_link: "by_tag (Component ''Link'') all_posts_link = [all_posts_link]"
    by (simp add: all_posts_link_def by_tag_simps)
  show ?thesis
    unfolding links_def Home_def Home_fragment_def
    by (simp add: by_tag_simps item head this_link comp_def split: option.split)
qed

lemma uls_Home:
  "by_tag (Host ''ul'') (Home cfg fmt posts) =
     [Element (Host ''ul'') [className ''divide-y divide-gray-200 dark:divide-gray-800'']
        [if posts = [] then Text ''No posts found.'' else JSFalse,
         Items (map (card cfg fmt) (take MAX_DISPLAY posts)),
         Element (Host ''div'')
           [className ''block divide-y divide-gray-200 md:hidden dark:divide-gray-800''] []]]"
  unfolding Home_def Home_fragment_def
  by (simp add: by_tag_simps by_tag_ul_card by_tag_ul_heading all_posts_link_def comp_def
      concat_map_Nil split: option.split)

lemma href_title_link: "attr ''href'' (title_link s t) = Some (PStr (''/blog/'' @ s))"
  by (simp add: title_link_def)

lemma href_read_more_link: "attr ''href'' (read_more_link s t) = Some (PStr (''/blog/'' @ s))"
  by (simp add: read_more_link_def)

lemma href_all_posts_link: "attr ''href'' all_posts_link = Some (PStr ''/blog'')"
  by (simp add: all_posts_link_def)

lemma set_links: "set (links n) = {m \<in> set (subnodes n). tag_of m = Some (Component ''Link'')}"
  by (simp add: links_def by_tag_def)

lemma blog_links_Home:
  "filter (\<lambda>l. attr ''href'' l = Some (PStr ''/blog'')) (links (Home cfg fmt posts))
     = (if MAX_DISPLAY < length posts then [all_posts_link] else [])"
proof -
  have "filter (\<lambda>l. attr ''href'' l = Some (PStr ''/blog''))
          (concat (map (\<lambda>p. [title_link (slug p) (title p), read_more_link (slug p) (title p)]) ps))
        = []" for ps :: "post list"
    by (induction ps) (simp_all add: href_title_link href_read_more_link)
  then show ?thesis
    by (simp add: links_Home href_all_posts_link)
qed

lemma texts_heading:
  "texts (heading cfg) =
     [''Lucas Bueno'', description cfg, '' '', ''*This is my notepad '' @ clown_face @ ''*'']"
  by (simp add: heading_def texts_simps)

lemma texts_Home:
  "texts (Home cfg fmt posts) =
     texts (heading cfg)
     @ (if posts = [] then [''No posts found.''] else [])
     @ concat (map (\<lambda>p. texts (card cfg fmt p)) (take MAX_DISPLAY posts))
     @ (if MAX_DISPLAY < length posts then [''All Posts '' @ rarr] else [])
     @ (case newsletter cfg of
          None \<Rightarrow> []
        | Some n \<Rightarrow> if newsletter_provider n = [] then [[]] else [])"
  unfolding Home_def Home_fragment_def
  by (simp add: texts_simps all_posts_link_def comp_def split: option.split)

lemma texts_title_link: "texts (title_link s t) = [t]"
  by (simp add: title_link_def texts_simps)

lemma texts_read_more_link: "texts (read_more_link s t) = [''Read more '' @ rarr]"
  by (simp add: read_more_link_def texts_simps)

lemma links_title_link: "links (title_link s t) = [title_link s t]"
  by (simp add: links_def title_link_def by_tag_simps)

lemma strictly_descending:
  "sorted_wrt (\<lambda>a b. date b \<le> date a) ps \<Longrightarrow> distinct (map date ps)
     \<Longrightarrow> sorted_wrt (\<lambda>a b. date b < date a) ps"
proof (induction ps)
  case Nil
  then show ?case by simp
next
  case (Cons p ps)
  have "date q < date p" if "q \<in> set ps" for q
  proof -
    from that have "date q \<in> date ` set ps"
      by (rule imageI)
    with Cons.prems have "date q \<noteq> date p"
      by auto
    moreover from that Cons.prems have "date q \<le> date p"
      by simp
    ultimately show ?thesis by simp
  qed
  with Cons show ?case by simp
qed

section \<open>The claims about Home\<close>

text \<open>
  C1: for every sequence \<open>posts\<close>, the cards of the tree \<open>Home\<close> returns are the cards
  of the first \<open>min (length posts) MAX_DISPLAY\<close> posts, one each and in the order of
  \<open>posts\<close>, with \<open>MAX_DISPLAY = 5\<close>; the keys of the cards are the slugs of those posts
  in that order.
\<close>

theorem Home_first_MAX_DISPLAY:
  "cards (Home cfg fmt posts) = map (card cfg fmt) (take MAX_DISPLAY posts)
   \<and> length (cards (Home cfg fmt posts)) = min (length posts) MAX_DISPLAY
   \<and> MAX_DISPLAY = 5
   \<and> map (attr ''key'') (cards (Home cfg fmt posts))
       = map (\<lambda>p. Some (PStr (slug p))) (take MAX_DISPLAY posts)"
proof -
  have key: "attr ''key'' (card cfg fmt p) = Some (PStr (slug p))" for p
    by (simp add: card_def card_li_def)
  show ?thesis
    by (simp add: cards_Home key comp_def min.commute) (simp add: MAX_DISPLAY_def)
qed

text \<open>
  C2: among the links of the tree \<open>Home\<close> returns, those with the address \<open>/blog\<close>
  are the one link to all posts when \<open>posts\<close> has more than \<open>MAX_DISPLAY\<close> entries, and
  none otherwise; and that link is a node of the tree exactly when \<open>posts\<close> has more than
  \<open>MAX_DISPLAY\<close> entries, so that it is absent and not hidden.
\<close>

theorem Home_all_posts_link:
  "filter (\<lambda>l. attr ''href'' l = Some (PStr ''/blog'')) (links (Home cfg fmt posts))
     = (if MAX_DISPLAY < length posts then [all_posts_link] else [])
   \<and> (all_posts_link \<in> set (subnodes (Home cfg fmt posts)) \<longleftrightarrow> MAX_DISPLAY < length posts)
   \<and> attr ''href'' all_posts_link = Some (PStr ''/blog'')"
proof -
  let ?H = "Home cfg fmt posts"
  let ?blog = "\<lambda>l. attr ''href'' l = Some (PStr ''/blog'')"
  have "all_posts_link \<in> set (subnodes ?H) \<longleftrightarrow> all_posts_link \<in> set (links ?H)"
    by (simp add: set_links) (simp add: all_posts_link_def)
  also have "\<dots> \<longleftrightarrow> all_posts_link \<in> set (filter ?blog (links ?H))"
    by (simp add: href_all_posts_link)
  also have "\<dots> \<longleftrightarrow> MAX_DISPLAY < length posts"
    by (simp only: blog_links_Home) simp
  finally show ?thesis
    by (simp only: blog_links_Home href_all_posts_link)
qed

text \<open>
  C3, as amended: the text \<open>No posts found.\<close> is a child of the list of posts exactly
  when \<open>posts\<close> is empty, so that on a non-empty sequence the message is not rendered;
  on the empty sequence the tree has no card and shows that text. The last part lists
  every text the tree shows, for every \<open>posts\<close>: the heading, the message when \<open>posts\<close>
  is empty and only then, the texts of the cards, the text of the link to all posts, and
  the empty string of an empty newsletter provider. On a non-empty sequence the sentence
  is shown only where the site description or a displayed post carries it.
\<close>

theorem Home_no_posts_found:
  "(Text ''No posts found.'' \<in> set (concat (map children (by_tag (Host ''ul'') (Home cfg fmt posts))))
      \<longleftrightarrow> posts = [])
   \<and> cards (Home cfg fmt []) = []
   \<and> ''No posts found.'' \<in> set (texts (Home cfg fmt []))
   \<and> texts (Home cfg fmt posts) =
       [''Lucas Bueno'', description cfg, '' '', ''*This is my notepad '' @ clown_face @ ''*'']
       @ (if posts = [] then [''No posts found.''] else [])
       @ concat (map (\<lambda>p. [''Published on'', fmt (date p) (site_locale cfg), title p,
                              summary p, ''Read more '' @ rarr])
                  (take MAX_DISPLAY posts))
       @ (if MAX_DISPLAY < length posts then [''All Posts '' @ rarr] else [])
       @ (case newsletter cfg of
            None \<Rightarrow> []
          | Some n \<Rightarrow> if newsletter_provider n = [] then [[]] else [])"
proof -
  have "''No posts found.'' \<in> set (texts (Home cfg fmt []))"
    by (simp add: texts_Home)
  moreover have "texts (Home cfg fmt posts) =
       [''Lucas Bueno'', description cfg, '' '', ''*This is my notepad '' @ clown_face @ ''*'']
       @ (if posts = [] then [''No posts found.''] else [])
       @ concat (map (\<lambda>p. [''Published on'', fmt (date p) (site_locale cfg), title p,
                              summary p, ''Read more '' @ rarr])
                  (take MAX_DISPLAY posts))
       @ (if MAX_DISPLAY < length posts then [''All Posts '' @ rarr] else [])
       @ (case newsletter cfg of
            None \<Rightarrow> []
          | Some n \<Rightarrow> if newsletter_provider n = [] then [[]] else [])"
    by (simp only: texts_Home texts_heading texts_card)
  ultimately show ?thesis
    by (simp only: uls_Home cards_Home) simp
qed

text \<open>
  C3 as first stated, with the text absent on every non-empty sequence, fails on the
  sequence of one post whose title is \<open>No posts found.\<close>: the tree shows the title in
  the card of the post.
\<close>

theorem Home_no_posts_found_counterexample:
  "[titled_post] \<noteq> []
   \<and> ''No posts found.'' \<in> set (texts (Home plain_site iso_date [titled_post]))
   \<and> Text ''No posts found.'' \<in> set (subnodes (Home plain_site iso_date [titled_post]))"
proof -
  have "''No posts found.'' \<in> set (texts (Home plain_site iso_date [titled_post]))"
    by (simp add: texts_Home texts_card MAX_DISPLAY_def titled_post_def)
  moreover have "Text ''No posts found.'' \<in> set (subnodes (Home plain_site iso_date [titled_post]))"
    by (simp add: Home_def Home_fragment_def card_def card_li_def title_link_def
        MAX_DISPLAY_def titled_post_def)
  ultimately show ?thesis by simp
qed

text \<open>
  C4: for seven posts with pairwise different dates, given by date descending, the cards
  are those of the first five posts, five cards; these five are in strictly descending
  date order and each of them is later than each of the two posts left out, so they are
  the five most recent; and the link to all posts is among the links of the tree. Dates
  compare as strings.
\<close>

theorem Home_seven_posts:
  assumes seven: "length posts = 7"
    and different: "distinct (map date posts)"
    and descending: "sorted_wrt (\<lambda>a b. date b \<le> date a) posts"
  shows "cards (Home cfg fmt posts) = map (card cfg fmt) (take 5 posts)
    \<and> length (cards (Home cfg fmt posts)) = 5
    \<and> sorted_wrt (\<lambda>a b. date b < date a) (take 5 posts)
    \<and> (\<forall>p \<in> set (take 5 posts). \<forall>q \<in> set (drop 5 posts). date q < date p)
    \<and> all_posts_link \<in> set (links (Home cfg fmt posts))"
proof -
  have strict: "sorted_wrt (\<lambda>a b. date b < date a) (take 5 posts @ drop 5 posts)"
    using strictly_descending [OF descending different] by simp
  have shown: "cards (Home cfg fmt posts) = map (card cfg fmt) (take 5 posts)"
    by (simp add: cards_Home MAX_DISPLAY_def)
  have more: "all_posts_link \<in> set (links (Home cfg fmt posts))"
    using seven by (simp add: links_Home MAX_DISPLAY_def)
  from strict have "sorted_wrt (\<lambda>a b. date b < date a) (take 5 posts)"
    and "\<forall>p \<in> set (take 5 posts). \<forall>q \<in> set (drop 5 posts). date q < date p"
    unfolding sorted_wrt_append by blast+
  with shown more seven show ?thesis by simp
qed

theorem Home_seven_posts_witness:
  "length seven_posts = 7 \<and> distinct (map date seven_posts)
   \<and> sorted_wrt (\<lambda>a b. date b \<le> date a) seven_posts
   \<and> map (attr ''key'') (cards (Home plain_site iso_date seven_posts))
       = [Some (PStr ''g''), Some (PStr ''f''), Some (PStr ''e''), Some (PStr ''d''),
          Some (PStr ''c'')]
   \<and> all_posts_link \<in> set (links (Home plain_site iso_date seven_posts))"
proof -
  have a: "length seven_posts = 7" by (simp add: seven_posts_def)
  have b: "distinct (map date seven_posts)" by (simp add: seven_posts_def)
  have c: "sorted_wrt (\<lambda>a b. date b \<le> date a) seven_posts" by (simp add: seven_posts_def)
  have "map (attr ''key'') (map (card plain_site iso_date) (take 5 seven_posts))
      = [Some (PStr ''g''), Some (PStr ''f''), Some (PStr ''e''), Some (PStr ''d''),
          Some (PStr ''c'')]"
    by (simp add: seven_posts_def card_def card_li_def)
  with a b c Home_seven_posts [OF a b c, of plain_site iso_date] show ?thesis by simp
qed

text \<open>
  C5: every card of the tree \<open>Home\<close> returns, taken with its post in the order of
  \<open>posts\<close>, has one \<open>time\<close> element showing \<open>formatDate\<close> of the post's date and the
  locale; one link in its \<open>h2\<close> heading, with the address \<open>/blog/\<close> followed by the
  slug and the title as its text; one \<open>Tag\<close> per entry of the post's tags, labelled
  with that entry, in order; and among its texts the summary.
\<close>

theorem card_contents:
  "map (by_tag (Host ''time'')) (cards (Home cfg fmt posts))
     = map (\<lambda>p. [Element (Host ''time'') [(''dateTime'', PStr (date p))]
                    [Text (fmt (date p) (site_locale cfg))]])
         (take MAX_DISPLAY posts)
   \<and> map (\<lambda>c. map (\<lambda>l. (attr ''href'' l, texts l))
                 (concat (map links (concat (map children (by_tag (Host ''h2'') c))))))
         (cards (Home cfg fmt posts))
     = map (\<lambda>p. [(Some (PStr (''/blog/'' @ slug p)), [title p])]) (take MAX_DISPLAY posts)
   \<and> map (\<lambda>c. map (attr ''text'') (by_tag (Component ''Tag'') c)) (cards (Home cfg fmt posts))
     = map (\<lambda>p. map (\<lambda>t. Some (PStr t)) (tags p)) (take MAX_DISPLAY posts)
   \<and> map texts (cards (Home cfg fmt posts))
     = map (\<lambda>p. [''Published on'', fmt (date p) (site_locale cfg), title p, summary p,
                  ''Read more '' @ rarr])
         (take MAX_DISPLAY posts)"
proof -
  have label: "attr ''text'' (Tag_el t) = Some (PStr t)" for t
    by (simp add: Tag_el_def)
  show ?thesis
    by (simp add: cards_Home comp_def by_tag_time_card by_tag_h2_card by_tag_Tag_card
        texts_card links_title_link href_title_link texts_title_link label)
qed

text \<open>
  C10: every card of the tree \<open>Home\<close> returns has exactly two links, the title link
  and then the link with the text \<open>Read more\<close> and the arrow, and both have the address
  \<open>/blog/\<close> followed by the slug of the card's post.
\<close>

theorem card_two_links:
  "map (\<lambda>c. map (\<lambda>l. (attr ''href'' l, texts l)) (links c)) (cards (Home cfg fmt posts))
     = map (\<lambda>p. [(Some (PStr (''/blog/'' @ slug p)), [title p]),
                  (Some (PStr (''/blog/'' @ slug p)), [''Read more '' @ rarr])])
         (take MAX_DISPLAY posts)"
  by (simp add: cards_Home comp_def links_card href_title_link href_read_more_link
      texts_title_link texts_read_more_link)

section \<open>Home as it runs: errors and the state of the runtime\<close>

lemma snd_card_js:
  "snd (card_js cfg fd obj s) = snd (fd (js_date obj) (site_locale cfg) s)"
  by (simp add: card_js_def split: prod.splits sum.splits option.splits)

lemma fst_card_js:
  "fst (card_js cfg fd obj s) =
     (case fst (fd (js_date obj) (site_locale cfg) s) of
        Inl e \<Rightarrow> Inl e
      | Inr shown \<Rightarrow>
          (case js_tags obj of
             None \<Rightarrow> Inl TypeError
           | Some ts \<Rightarrow>
               Inr (card_li cfg (\<lambda>d l. shown) (js_slug obj) (js_date obj) (js_title obj)
                      (js_summary obj) ts)))"
  by (simp add: card_js_def split: prod.splits sum.splits option.splits)

lemma map_js_unchanged:
  "list_all (\<lambda>x. snd (f x s) = s) xs \<Longrightarrow> snd (map_js f xs s) = s"
  by (induction xs) (auto split: prod.splits sum.splits)

lemma map_js_agree:
  assumes "list_all (\<lambda>x. snd (f x s) = s \<and> snd (f x s') = s' \<and> fst (f x s) = fst (f x s')) xs"
  shows "fst (map_js f xs s) = fst (map_js f xs s')"
  using assms
proof (induction xs)
  case Nil
  then show ?case by simp
next
  case (Cons x xs)
  then have same: "fst (f x s) = fst (f x s')" and s: "snd (f x s) = s" and s': "snd (f x s') = s'"
    and rest: "fst (map_js f xs s) = fst (map_js f xs s')"
    by simp_all
  obtain r where r: "f x s = (r, s)" using s by (cases "f x s") simp
  with same s' have r': "f x s' = (r, s')" by (cases "f x s'") simp
  obtain q t where q: "map_js f xs s = (q, t)" by (cases "map_js f xs s")
  with rest obtain t' where q': "map_js f xs s' = (q, t')" by (cases "map_js f xs s'") simp
  show ?case
    by (simp add: r r' q q' split: sum.splits)
qed

text \<open>
  C6, as amended: \<open>Home\<close> writes nothing of its own, and its result depends on the
  runtime only through \<open>formatDate\<close>. Take two runs on the same sequence under the
  same site configuration, from the states \<open>s\<close> and \<open>s'\<close> of the runtime. If, for the
  date of each of the first \<open>MAX_DISPLAY\<close> entries, \<open>formatDate\<close> leaves the state as
  it is and returns the same in both runs, then \<open>Home\<close> leaves the state as it is in
  both runs and both runs have the same result, the same tree or the same error. Two
  runs from the same state are the case \<open>s = s'\<close>.
\<close>

theorem Home_js_deterministic:
  assumes reads: "list_all
      (\<lambda>obj. snd (fd (js_date obj) (site_locale cfg) s) = s
            \<and> snd (fd (js_date obj) (site_locale cfg) s') = s'
            \<and> fst (fd (js_date obj) (site_locale cfg) s) = fst (fd (js_date obj) (site_locale cfg) s'))
      (take MAX_DISPLAY objs)"
  shows "snd (Home_js cfg fd objs s) = s
    \<and> snd (Home_js cfg fd objs s') = s'
    \<and> fst (Home_js cfg fd objs s) = fst (Home_js cfg fd objs s')"
proof -
  let ?items = "\<lambda>s. map_js (card_js cfg fd) (take MAX_DISPLAY objs) s"
  from reads have each: "list_all
      (\<lambda>obj. snd (card_js cfg fd obj s) = s \<and> snd (card_js cfg fd obj s') = s'
            \<and> fst (card_js cfg fd obj s) = fst (card_js cfg fd obj s'))
      (take MAX_DISPLAY objs)"
    by (simp add: snd_card_js fst_card_js list_all_iff)
  then have "list_all (\<lambda>obj. snd (card_js cfg fd obj s) = s) (take MAX_DISPLAY objs)"
    and "list_all (\<lambda>obj. snd (card_js cfg fd obj s') = s') (take MAX_DISPLAY objs)"
    by (simp_all add: list_all_iff)
  then have unchanged: "snd (?items s) = s" "snd (?items s') = s'"
    by (simp_all add: map_js_unchanged)
  from each have same: "fst (?items s) = fst (?items s')"
    by (rule map_js_agree)
  obtain r where r: "?items s = (r, s)" using unchanged(1) by (cases "?items s") simp
  with same unchanged(2) have r': "?items s' = (r, s')" by (cases "?items s'") simp
  show ?thesis
    by (simp add: Home_js_def r r' split: sum.splits)
qed

theorem Home_js_deterministic_witness:
  "utc \<noteq> london
   \<and> snd (Home_js plain_site sample_formatDate [js_of april_post] utc) = utc
   \<and> snd (Home_js plain_site sample_formatDate [js_of april_post] london) = london
   \<and> fst (Home_js plain_site sample_formatDate [js_of april_post] utc)
       = fst (Home_js plain_site sample_formatDate [js_of april_post] london)"
proof -
  have "list_all
      (\<lambda>obj. snd (sample_formatDate (js_date obj) (site_locale plain_site) utc) = utc
            \<and> snd (sample_formatDate (js_date obj) (site_locale plain_site) london) = london
            \<and> fst (sample_formatDate (js_date obj) (site_locale plain_site) utc)
                = fst (sample_formatDate (js_date obj) (site_locale plain_site) london))
      (take MAX_DISPLAY [js_of april_post])"
    by (simp add: MAX_DISPLAY_def js_of_def april_post_def plain_site_def sample_formatDate_def
        utc_def london_def)
  from Home_js_deterministic
      [where fd = sample_formatDate and cfg = plain_site and s = utc and s' = london
         and objs = "[js_of april_post]", OF this]
  show ?thesis
    by (simp add: utc_def london_def)
qed

text \<open>
  C6 as first stated, with identical outputs for any two runs on equal sequences under
  the same site configuration, fails: the post dated \<open>2024-04-24\<close> is rendered with
  April 24 by a run in UTC and with April 23 by a run in the time zone of Sao Paulo.
\<close>

theorem Home_js_time_zone_counterexample:
  "fst (Home_js plain_site sample_formatDate [js_of april_post] utc)
     \<noteq> fst (Home_js plain_site sample_formatDate [js_of april_post] sao_paulo)"
  by (simp add: Home_js_def card_js_def MAX_DISPLAY_def js_of_def april_post_def plain_site_def
      sample_formatDate_def utc_def sao_paulo_def Home_fragment_def card_li_def)






lemma Home_js_raises:
  "Home_js plain_site sample_formatDate [(js_of april_post)\<lparr>js_tags := None\<rparr>] utc
     = (Inl TypeError, utc)"
  by (simp add: Home_js_def card_js_def MAX_DISPLAY_def js_of_def april_post_def plain_site_def
      sample_formatDate_def utc_def)




section \<open>The listing\<close>

lemma set_insert_by_date: "set (insert_by_date p ps) = insert p (set ps)"
  by (induction ps) auto

lemma set_sort_by_date_desc: "set (sort_by_date_desc ps) = set ps"
  by (induction ps) (simp_all add: sort_by_date_desc_def set_insert_by_date)

text \<open>
  C8: the sequence the Listing Assembler returns, which is the sequence \<open>Home\<close>
  receives, holds no draft: its drafts are the empty list, zero of them, and its posts
  are the posts of the input that are not drafts.
\<close>

theorem listing_has_no_draft:
  "filter draft (listing_assembler posts) = []
   \<and> length (filter draft (listing_assembler posts)) = 0
   \<and> set (listing_assembler posts) = {p. p \<in> set posts \<and> \<not> draft p}"
proof -
  have kept: "set (listing_assembler posts) = {p. p \<in> set posts \<and> \<not> draft p}"
    by (auto simp add: listing_assembler_def set_sort_by_date_desc)
  then have "filter draft (listing_assembler posts) = []"
    by (simp add: filter_empty_conv)
  with kept show ?thesis by simp
qed

section \<open>The search button\<close>

text \<open>
  C9: with the provider \<open>algolia\<close> the component returns the \<open>AlgoliaButton\<close> element,
  with the provider \<open>kbar\<close> the \<open>KBarButton\<close> element, and without a search
  configuration or with any other provider it returns \<open>undefined\<close>, which renders
  nothing.
\<close>

theorem SearchButton_dispatch:
  "(search cfg = Some s \<and> search_provider s = ''algolia''
      \<longrightarrow> tag_of (SearchButton cfg) = Some (Component ''AlgoliaButton''))
   \<and> (search cfg = Some s \<and> search_provider s = ''kbar''
      \<longrightarrow> tag_of (SearchButton cfg) = Some (Component ''KBarButton''))
   \<and> (search cfg = None
       \<or> (search cfg = Some s \<and> search_provider s \<noteq> ''algolia'' \<and> search_provider s \<noteq> ''kbar'')
      \<longrightarrow> SearchButton cfg = JSUndefined \<and> renders_nothing (SearchButton cfg))"
  by (auto simp add: SearchButton_def Let_def)

theorem SearchButton_dispatch_witness:
  "tag_of (SearchButton (plain_site\<lparr>search := Some \<lparr>search_provider = ''algolia''\<rparr>\<rparr>))
     = Some (Component ''AlgoliaButton'')
   \<and> tag_of (SearchButton (plain_site\<lparr>search := Some \<lparr>search_provider = ''kbar''\<rparr>\<rparr>))
     = Some (Component ''KBarButton'')
   \<and> SearchButton plain_site = JSUndefined
   \<and> SearchButton (plain_site\<lparr>search := Some \<lparr>search_provider = ''lunr''\<rparr>\<rparr>) = JSUndefined"
  using
    SearchButton_dispatch [of "plain_site\<lparr>search := Some \<lparr>search_provider = ''algolia''\<rparr>\<rparr>"
      "\<lparr>search_provider = ''algolia''\<rparr>"]
    SearchButton_dispatch [of "plain_site\<lparr>search := Some \<lparr>search_provider = ''kbar''\<rparr>\<rparr>"
      "\<lparr>search_provider = ''kbar''\<rparr>"]
    SearchButton_dispatch [of plain_site "\<lparr>search_provider = ''kbar''\<rparr>"]
    SearchButton_dispatch [of "plain_site\<lparr>search := Some \<lparr>search_provider = ''lunr''\<rparr>\<rparr>"
      "\<lparr>search_provider = ''lunr''\<rparr>"]
  by (simp add: plain_site_def)

end
